theory Spec2Isabelle
  imports Complex_Main
begin

section \<open>Python values used by the configuration module\<close>

text \<open>
  The module \<^verbatim>\<open>vocals_sdk/config.py\<close> reads \<^verbatim>\<open>os.environ\<close>, a mapping from
  names to strings. A string is a list of characters; a character stands for its code
  point, below 256, so the digits and spaces of Unicode beyond that range are outside
  the model.
\<close>

type_synonym environ = "string \<rightharpoonup> string"

text \<open>
  \<^verbatim>\<open>os.environ.get(key, default)\<close>; the call with one argument,
  \<^verbatim>\<open>os.environ.get(key)\<close>, is the application \<open>env key\<close>, with \<open>None\<close> for Python's
  \<^verbatim>\<open>None\<close>.
\<close>

definition environ_get :: "environ \<Rightarrow> string \<Rightarrow> string \<Rightarrow> string" where
  "environ_get env key dflt = (case env key of None \<Rightarrow> dflt | Some v \<Rightarrow> v)"

text \<open>
  The exceptions of the model: \<^verbatim>\<open>ValueError\<close>, which \<^verbatim>\<open>int\<close> and \<^verbatim>\<open>float\<close> raise, and
  the \<^verbatim>\<open>StateError\<close> that section 7 of the specification declares for an operation
  called in an invalid state.
\<close>

datatype error = ValueError | StateError

subsection \<open>\<^verbatim>\<open>str.lower\<close>\<close>

text \<open>
  On code points below 256, \<^verbatim>\<open>str.lower\<close> maps \<^verbatim>\<open>A\<close>..\<^verbatim>\<open>Z\<close> (65..90) and the
  accented capitals 192..222, the multiplication sign 215 apart, to the code point 32
  above, and leaves every other character as it is.
\<close>

definition lower_char :: "char \<Rightarrow> char" where
  "lower_char c =
     (let n = (of_char c :: nat)
      in if (65 \<le> n \<and> n \<le> 90) \<or> (192 \<le> n \<and> n \<le> 222 \<and> n \<noteq> 215)
         then char_of (n + 32) else c)"

definition lower :: "string \<Rightarrow> string" where
  "lower s = map lower_char s"

subsection \<open>\<^verbatim>\<open>int(str)\<close> and \<^verbatim>\<open>float(str)\<close>\<close>

text \<open>
  Both builtins strip leading and trailing whitespace, then accept an optional sign and
  a number; digits may be grouped by single underscores
  (\<^verbatim>\<open>digitpart ::= digit (["_"] digit)*\<close>). A string outside the grammar raises
  \<^verbatim>\<open>ValueError\<close>, here the result \<open>None\<close>.
\<close>

text \<open>
  The whitespace that the two parsers skip: tab to carriage return (9..13), the space,
  and, of the code points from 128 to 255, the next-line character 133 and the
  no-break space 160. The separators 28..31 are not skipped.
\<close>

definition isspace :: "char \<Rightarrow> bool" where
  "isspace c = ((of_char c :: nat) \<in> {9, 10, 11, 12, 13, 32, 133, 160})"

definition strip :: "string \<Rightarrow> string" where
  "strip s = rev (dropWhile isspace (rev (dropWhile isspace s)))"

definition isdigit :: "char \<Rightarrow> bool" where
  "isdigit c = (48 \<le> (of_char c :: nat) \<and> (of_char c :: nat) \<le> 57)"

definition digit_value :: "char \<Rightarrow> nat" where
  "digit_value c = of_char c - 48"

text \<open>The digits of a \<^verbatim>\<open>digitpart\<close> after its first digit, underscores removed.\<close>

fun digits_rest :: "string \<Rightarrow> string option" where
  "digits_rest [] = Some []"
| "digits_rest (c # cs) =
     (if isdigit c then map_option ((#) c) (digits_rest cs)
      else if c = CHR ''_'' then
        (case cs of
           [] \<Rightarrow> None
         | d # ds \<Rightarrow> if isdigit d then map_option ((#) d) (digits_rest ds) else None)
      else None)"

definition digitpart :: "string \<Rightarrow> string option" where
  "digitpart s =
     (case s of
        [] \<Rightarrow> None
      | c # cs \<Rightarrow> if isdigit c then map_option ((#) c) (digits_rest cs) else None)"

definition nat_of_digits :: "string \<Rightarrow> nat" where
  "nat_of_digits ds = foldl (\<lambda>acc c. 10 * acc + digit_value c) 0 ds"

text \<open>
  \<^verbatim>\<open>int\<close> refuses a decimal string of more than \<^verbatim>\<open>sys.get_int_max_str_digits()\<close>
  digits, 4300 unless the interpreter is configured otherwise, with a \<^verbatim>\<open>ValueError\<close>.
  The count is of the digits alone (leading zeros included; sign, underscores and
  surrounding whitespace excluded).
\<close>

definition int_max_str_digits :: nat where
  "int_max_str_digits = 4300"

definition int_digits :: "string \<Rightarrow> int option" where
  "int_digits s =
     (case digitpart s of
        None \<Rightarrow> None
      | Some ds \<Rightarrow>
          if int_max_str_digits < length ds then None else Some (int (nat_of_digits ds)))"

text \<open>\<^verbatim>\<open>int(s)\<close> in base 10: \<^verbatim>\<open>[sign] digitpart\<close>.\<close>

definition py_int :: "string \<Rightarrow> int option" where
  "py_int s =
     (case strip s of
        [] \<Rightarrow> None
      | c # cs \<Rightarrow>
          if c = CHR ''-'' then map_option uminus (int_digits cs)
          else if c = CHR ''+'' then int_digits cs
          else int_digits (c # cs))"

text \<open>
  A Python float is an IEEE 754 double. A finite one is kept as the rational number
  that it is exactly (the sign of a zero is not kept), an infinity with its sign
  (\<open>True\<close> for the negative one).
\<close>

datatype pyfloat = Finite rat | Infinite bool | NaN

text \<open>The number of bits of a natural number: \<open>2 ^ (bit_length n - 1) \<le> n < 2 ^ bit_length n\<close>.\<close>

fun bit_length :: "nat \<Rightarrow> nat" where
  "bit_length n = (if n = 0 then 0 else Suc (bit_length (n div 2)))"

declare bit_length.simps [simp del]

text \<open>The integer nearest to \<open>a / b\<close>, the even one of the two when \<open>a / b\<close> is halfway.\<close>

definition round_half_even :: "nat \<Rightarrow> nat \<Rightarrow> nat" where
  "round_half_even a b =
     (let q = a div b; r = a mod b
      in if 2 * r < b then q
         else if b < 2 * r then q + 1
         else if even q then q else q + 1)"

text \<open>
  \<^verbatim>\<open>float\<close> rounds correctly: its result is the double nearest to the decimal, ties to
  the even significand. For \<open>a / b > 0\<close> with \<open>2 ^ k \<le> a / b < 2 ^ (k + 1)\<close>, doubles
  are spaced \<open>2 ^ t\<close> apart where \<open>t = max k (- 1022) - 52\<close> (53 significant bits, the
  subnormal range below \<open>2 ^ (- 1022)\<close>), so the result is \<open>a / b / 2 ^ t\<close> rounded to
  an integer, times \<open>2 ^ t\<close>; it is an infinity when that reaches \<open>2 ^ 1024\<close>.
\<close>

definition nearest_double :: "bool \<Rightarrow> nat \<Rightarrow> nat \<Rightarrow> pyfloat" where
  "nearest_double neg a b =
     (if a = 0 then Finite 0
      else
        let l = int (bit_length a) - int (bit_length b);
            k = (if (if 0 \<le> l then b * 2 ^ nat l \<le> a else b \<le> a * 2 ^ nat (- l))
                 then l else l - 1);
            t = max k (- 1022) - 52;
            n = (if 0 \<le> t then round_half_even a (b * 2 ^ nat t)
                 else round_half_even (a * 2 ^ nat (- t)) b);
            v = (if 0 \<le> t then of_nat n * 2 ^ nat t else of_nat n / 2 ^ nat (- t)) :: rat
        in if 971 < t \<or> (t = 971 \<and> 2 ^ 53 \<le> n) then Infinite neg
           else Finite (if neg then - v else v))"

text \<open>The double nearest to \<open>m * 10 ^ e\<close>, negated when \<open>neg\<close>.\<close>

definition decimal_double :: "bool \<Rightarrow> nat \<Rightarrow> int \<Rightarrow> pyfloat" where
  "decimal_double neg m e =
     (if 0 \<le> e then nearest_double neg (m * 10 ^ nat e) 1
      else nearest_double neg m (10 ^ nat (- e)))"

text \<open>
  \<^verbatim>\<open>number ::= [digitpart] "." digitpart | digitpart ["."]\<close>: the digits before and
  the digits after the point.
\<close>

definition float_number :: "string \<Rightarrow> (string \<times> string) option" where
  "float_number s =
     (let ip = takeWhile (\<lambda>c. c \<noteq> CHR ''.'') s;
          rest = dropWhile (\<lambda>c. c \<noteq> CHR ''.'') s
      in case rest of
           [] \<Rightarrow> map_option (\<lambda>ds. (ds, [])) (digitpart ip)
         | _ # fp \<Rightarrow>
             if ip = [] then map_option (\<lambda>fs. ([], fs)) (digitpart fp)
             else if fp = [] then map_option (\<lambda>ds. (ds, [])) (digitpart ip)
             else (case (digitpart ip, digitpart fp) of
                     (Some ds, Some fs) \<Rightarrow> Some (ds, fs)
                   | _ \<Rightarrow> None))"

text \<open>\<^verbatim>\<open>exponent ::= ("e" | "E") [sign] digitpart\<close>, given the text after the letter.\<close>

definition float_exponent :: "string \<Rightarrow> int option" where
  "float_exponent s =
     (case s of
        [] \<Rightarrow> None
      | c # cs \<Rightarrow>
          if c = CHR ''-'' then map_option (\<lambda>ds. - int (nat_of_digits ds)) (digitpart cs)
          else if c = CHR ''+'' then map_option (\<lambda>ds. int (nat_of_digits ds)) (digitpart cs)
          else map_option (\<lambda>ds. int (nat_of_digits ds)) (digitpart (c # cs)))"

text \<open>\<^verbatim>\<open>floatnumber ::= number [exponent]\<close>, as mantissa and decimal exponent.\<close>

definition floatnumber :: "string \<Rightarrow> (nat \<times> int) option" where
  "floatnumber s =
     (let isexp = (\<lambda>c. c = CHR ''e'' \<or> c = CHR ''E'');
          num = takeWhile (\<lambda>c. \<not> isexp c) s;
          rest = dropWhile (\<lambda>c. \<not> isexp c) s
      in case float_number num of
           None \<Rightarrow> None
         | Some (ds, fs) \<Rightarrow>
             (case rest of
                [] \<Rightarrow> Some (nat_of_digits (ds @ fs), - int (length fs))
              | _ # ex \<Rightarrow>
                  map_option (\<lambda>e. (nat_of_digits (ds @ fs), e - int (length fs)))
                    (float_exponent ex)))"

definition absfloatvalue :: "bool \<Rightarrow> string \<Rightarrow> pyfloat option" where
  "absfloatvalue neg s =
     (if lower s = ''inf'' \<or> lower s = ''infinity'' then Some (Infinite neg)
      else if lower s = ''nan'' then Some NaN
      else map_option (\<lambda>(m, e). decimal_double neg m e) (floatnumber s))"

text \<open>\<^verbatim>\<open>float(s)\<close>: \<^verbatim>\<open>[sign] (floatnumber | infinity | nan)\<close>.\<close>

definition py_float :: "string \<Rightarrow> pyfloat option" where
  "py_float s =
     (case strip s of
        [] \<Rightarrow> None
      | c # cs \<Rightarrow>
          if c = CHR ''-'' then absfloatvalue True cs
          else if c = CHR ''+'' then absfloatvalue False cs
          else absfloatvalue False (c # cs))"

section \<open>The configuration object\<close>

text \<open>
  \<^verbatim>\<open>VocalsConfig\<close> (config.py, lines 10 to 50) is a dataclass with eight declared
  fields. The decorator is the plain \<^verbatim>\<open>@dataclass\<close>, without \<^verbatim>\<open>frozen=True\<close>, so an
  instance also accepts attributes that the class does not declare; they are kept in
  \<open>extra_attrs\<close>, most recent first.
\<close>

datatype pyval = PNone | PStr string | PBool bool | PInt int | PFloat pyfloat

record VocalsConfig =
  token_endpoint :: "string option"
  headers :: "(string \<times> string) list option"
  auto_connect :: bool
  max_reconnect_attempts :: int
  reconnect_delay :: pyfloat
  token_refresh_buffer :: pyfloat
  ws_endpoint :: "string option"
  use_token_auth :: bool
  extra_attrs :: "(string \<times> pyval) list"

text \<open>
  \<^verbatim>\<open>__post_init__\<close> (lines 38 to 50). The expression
  \<^verbatim>\<open>os.environ.get("VOCALS_WS_ENDPOINT") or "ws://..."\<close> takes the default when the
  variable is unset and also when it is the empty string.
\<close>

definition post_init :: "environ \<Rightarrow> VocalsConfig \<Rightarrow> VocalsConfig" where
  "post_init env self =
     (let self1 = (if token_endpoint self = None
                   then self\<lparr>token_endpoint := Some ''/api/wstoken''\<rparr> else self);
          self2 = (if headers self1 = None then self1\<lparr>headers := Some []\<rparr> else self1)
      in if ws_endpoint self2 = None
         then self2\<lparr>ws_endpoint :=
                Some (case env ''VOCALS_WS_ENDPOINT'' of
                        None \<Rightarrow> ''ws://192.168.1.46:8000/v1/stream/conversation''
                      | Some v \<Rightarrow>
                          if v = [] then ''ws://192.168.1.46:8000/v1/stream/conversation''
                          else v)\<rparr>
         else self2)"

text \<open>
  The generated \<^verbatim>\<open>__init__\<close> stores its eight arguments and calls
  \<^verbatim>\<open>__post_init__\<close>.
\<close>

definition VocalsConfig_init ::
  "environ \<Rightarrow> string option \<Rightarrow> (string \<times> string) list option \<Rightarrow> bool \<Rightarrow> int \<Rightarrow>
     pyfloat \<Rightarrow> pyfloat \<Rightarrow> string option \<Rightarrow> bool \<Rightarrow> VocalsConfig" where
  "VocalsConfig_init env te hs ac mra rd trb ws uta =
     post_init env
       \<lparr>token_endpoint = te, headers = hs, auto_connect = ac, max_reconnect_attempts = mra,
        reconnect_delay = rd, token_refresh_buffer = trb, ws_endpoint = ws,
        use_token_auth = uta, extra_attrs = []\<rparr>"

text \<open>
  The bare constructor \<^verbatim>\<open>VocalsConfig()\<close>, every argument at its declared default
  (lines 15 to 36); \<^verbatim>\<open>DEFAULT_CONFIG\<close> (line 54) is this value in the environment of
  the import.
\<close>

definition VocalsConfig_default :: "environ \<Rightarrow> VocalsConfig" where
  "VocalsConfig_default env =
     VocalsConfig_init env None None True 3 (Finite 1) (Finite 60) None True"

text \<open>
  \<^verbatim>\<open>get_default_config\<close> (lines 57 to 74). The arguments are evaluated in the order
  written; each of \<^verbatim>\<open>int\<close> and \<^verbatim>\<open>float\<close> may raise \<^verbatim>\<open>ValueError\<close>, nothing else can.
\<close>

definition get_default_config :: "environ \<Rightarrow> error + VocalsConfig" where
  "get_default_config env =
     (let te = environ_get env ''VOCALS_TOKEN_ENDPOINT'' ''/api/wstoken'';
          ws = environ_get env ''VOCALS_WS_ENDPOINT''
                 ''ws://192.168.1.46:8000/v1/stream/conversation'';
          ac = (lower (environ_get env ''VOCALS_AUTO_CONNECT'' ''true'') = ''true'')
      in case py_int (environ_get env ''VOCALS_MAX_RECONNECT_ATTEMPTS'' ''3'') of
           None \<Rightarrow> Inl ValueError
         | Some mra \<Rightarrow>
        (case py_float (environ_get env ''VOCALS_RECONNECT_DELAY'' ''1.0'') of
           None \<Rightarrow> Inl ValueError
         | Some rd \<Rightarrow>
        (case py_float (environ_get env ''VOCALS_TOKEN_REFRESH_BUFFER'' ''60.0'') of
           None \<Rightarrow> Inl ValueError
         | Some trb \<Rightarrow>
             Inr (VocalsConfig_init env (Some te) None ac mra rd trb (Some ws)
                    (lower (environ_get env ''VOCALS_USE_TOKEN_AUTH'' ''true'') = ''true'')))))"

text \<open>
  A variable "parses" under \<^verbatim>\<open>int\<close> or \<^verbatim>\<open>float\<close> when it is unset (the default
  string is then parsed) or its value is accepted by the builtin.
\<close>

definition env_parses :: "(string \<Rightarrow> 'a option) \<Rightarrow> environ \<Rightarrow> string \<Rightarrow> bool" where
  "env_parses parse env key = (case env key of None \<Rightarrow> True | Some v \<Rightarrow> parse v \<noteq> None)"

text \<open>
  The first two statements of \<^verbatim>\<open>test_configuration_options\<close> (test.py, lines 91 and
  92): \<^verbatim>\<open>config = get_default_config()\<close>, then \<^verbatim>\<open>config.debug_level = "DEBUG"\<close>. The
  assignment succeeds on the unfrozen dataclass and adds an attribute to the object.
\<close>

definition test_configuration_options_config :: "environ \<Rightarrow> error + VocalsConfig" where
  "test_configuration_options_config env =
     (case get_default_config env of
        Inl e \<Rightarrow> Inl e
      | Inr config \<Rightarrow>
          Inr (config\<lparr>extra_attrs := (''debug_level'', PStr ''DEBUG'') # extra_attrs config\<rparr>))"

section \<open>The client runtime\<close>

text \<open>
  Modelled from the spec: the class \<^verbatim>\<open>VocalsClient\<close> is not among the sources; test.py
  only constructs it and calls its methods. The states, the queue and the operations
  below follow sections 3, 4 and 7 of the specification.
\<close>

text \<open>Modelled from the spec: \<^verbatim>\<open>ConnectionState\<close> and \<^verbatim>\<open>RecordingState\<close> (section 3).\<close>

datatype ConnectionState = Disconnected | Connecting | Connected | Reconnecting | Error

datatype RecordingState = Idle | Recording | Stopping

text \<open>
  Modelled from the spec: what the Connection Manager does with its transport, in the
  order it does it: opening it for \<^verbatim>\<open>connect()\<close>, one reconnect attempt, waiting
  \<^verbatim>\<open>reconnect_delay\<close> seconds between two attempts, closing it.
\<close>

datatype transport_action = Open_transport | Reconnect_attempt | Wait pyfloat | Close_transport

text \<open>
  Modelled from the spec: the state of a client. \<open>connection_events\<close> holds the
  connection-state events emitted so far and \<open>processor_calls\<close> the segments handed to
  a caller-supplied processor so far, both oldest first; \<open>audio_queue\<close> is in arrival
  order.
\<close>

record 'seg Client =
  config :: VocalsConfig
  connection_state :: ConnectionState
  recording_state :: RecordingState
  audio_queue :: "'seg list"
  processor_calls :: "'seg list"
  connection_events :: "ConnectionState list"
  transport_log :: "transport_action list"

text \<open>
  Modelled from the spec: a transition of the connection state emits one
  connection-state event (section 4.1).
\<close>

definition set_connection_state :: "ConnectionState \<Rightarrow> 'seg Client \<Rightarrow> 'seg Client" where
  "set_connection_state s c =
     c\<lparr>connection_state := s, connection_events := connection_events c @ [s]\<rparr>"

text \<open>
  Modelled from the spec: \<^verbatim>\<open>connect()\<close> (section 4.1) goes from disconnected or error
  to connecting, opens the transport, and ends connected when the transport opened,
  in error otherwise. \<open>opened\<close> says whether the transport opens; fetching the token is
  left out.
\<close>

definition connect :: "bool \<Rightarrow> 'seg Client \<Rightarrow> 'seg Client" where
  "connect opened c =
     (if connection_state c = Disconnected \<or> connection_state c = Error then
        (let c1 = set_connection_state Connecting c;
             c2 = c1\<lparr>transport_log := transport_log c1 @ [Open_transport]\<rparr>
         in set_connection_state (if opened then Connected else Error) c2)
      else c)"

text \<open>
  Modelled from the spec: \<^verbatim>\<open>disconnect()\<close> (sections 4.1 and 8) closes the transport
  and goes to disconnected whatever the state was. On a client that is disconnected
  already, the specification allows one connection-state event or none; \<open>notify_noop\<close>
  is that choice.
\<close>

definition disconnect :: "bool \<Rightarrow> 'seg Client \<Rightarrow> 'seg Client" where
  "disconnect notify_noop c =
     (if connection_state c = Disconnected then
        (if notify_noop then set_connection_state Disconnected c else c)
      else set_connection_state Disconnected
             (c\<lparr>transport_log := transport_log c @ [Close_transport]\<rparr>))"

text \<open>
  Modelled from the spec: the retry loop of section 4.1. \<open>n\<close> attempts are left, \<open>k\<close>
  have been made, and \<open>opens k\<close> says whether attempt number \<open>k\<close> opens the transport.
  The manager waits \<open>d\<close> seconds between two attempts; when no attempt is left it goes to
  error.
\<close>

fun reconnect :: "nat \<Rightarrow> pyfloat \<Rightarrow> (nat \<Rightarrow> bool) \<Rightarrow> nat \<Rightarrow> 'seg Client \<Rightarrow> 'seg Client" where
  "reconnect 0 d opens k c = set_connection_state Error c"
| "reconnect (Suc n) d opens k c =
     (let c1 = c\<lparr>transport_log := transport_log c @
                   (if k = 0 then [Reconnect_attempt] else [Wait d, Reconnect_attempt])\<rparr>
      in if opens k then set_connection_state Connected c1
         else reconnect n d opens (Suc k) c1)"

text \<open>
  Modelled from the spec: the transport is lost (section 4.1). While connected, the
  manager goes to reconnecting and retries up to \<^verbatim>\<open>max_reconnect_attempts\<close> times (a
  negative setting leaves no attempt); in any other state there is no connection to
  lose.
\<close>

definition transport_lost :: "(nat \<Rightarrow> bool) \<Rightarrow> 'seg Client \<Rightarrow> 'seg Client" where
  "transport_lost opens c =
     (if connection_state c = Connected then
        reconnect (nat (max_reconnect_attempts (config c))) (reconnect_delay (config c))
          opens 0 (set_connection_state Reconnecting c)
      else c)"

text \<open>
  Modelled from the spec: \<^verbatim>\<open>start_recording()\<close> (sections 4.2 and 7) requires the
  connected state and otherwise raises \<^verbatim>\<open>StateError\<close> to its caller; on success it
  goes from idle to recording. The result is paired with the state after the call.
\<close>

definition start_recording :: "'seg Client \<Rightarrow> (error + unit) \<times> 'seg Client" where
  "start_recording c =
     (if connection_state c \<noteq> Connected then (Inl StateError, c)
      else (Inr (), if recording_state c = Idle then c\<lparr>recording_state := Recording\<rparr> else c))"

text \<open>Modelled from the spec: \<^verbatim>\<open>add_to_queue(segment)\<close> appends (section 4.3).\<close>

definition add_to_queue :: "'seg \<Rightarrow> 'seg Client \<Rightarrow> 'seg Client" where
  "add_to_queue seg c = c\<lparr>audio_queue := audio_queue c @ [seg]\<rparr>"

text \<open>
  Modelled from the spec: \<^verbatim>\<open>process_audio_queue(processor, consume_all)\<close> (section
  4.3) removes segments and hands them to the processor in arrival order, one segment
  (none from an empty queue) when \<^verbatim>\<open>consume_all\<close> is false, all of them when it is
  true, and returns the count.
\<close>

definition process_audio_queue :: "bool \<Rightarrow> 'seg Client \<Rightarrow> nat \<times> 'seg Client" where
  "process_audio_queue consume_all c =
     (if consume_all then
        (length (audio_queue c),
         c\<lparr>processor_calls := processor_calls c @ audio_queue c, audio_queue := []\<rparr>)
      else
        (case audio_queue c of
           [] \<Rightarrow> (0, c)
         | seg # rest \<Rightarrow>
             (1, c\<lparr>processor_calls := processor_calls c @ [seg], audio_queue := rest\<rparr>)))"

text \<open>Modelled from the spec: \<^verbatim>\<open>clear_queue()\<close> discards the pending segments (section 4.3).\<close>

definition clear_queue :: "'seg Client \<Rightarrow> 'seg Client" where
  "clear_queue c = c\<lparr>audio_queue := []\<rparr>"

text \<open>
  Modelled from the spec: the calls and events a client can receive, and a run of
  several of them in order.
\<close>

datatype 'seg operation =
    Op_connect bool
  | Op_disconnect bool
  | Op_transport_lost "nat \<Rightarrow> bool"
  | Op_start_recording
  | Op_add_to_queue 'seg
  | Op_process_audio_queue bool
  | Op_clear_queue

fun step :: "'seg operation \<Rightarrow> 'seg Client \<Rightarrow> 'seg Client" where
  "step (Op_connect opened) c = connect opened c"
| "step (Op_disconnect notify_noop) c = disconnect notify_noop c"
| "step (Op_transport_lost opens) c = transport_lost opens c"
| "step Op_start_recording c = snd (start_recording c)"
| "step (Op_add_to_queue seg) c = add_to_queue seg c"
| "step (Op_process_audio_queue consume_all) c = snd (process_audio_queue consume_all c)"
| "step Op_clear_queue c = clear_queue c"

definition run :: "'seg operation list \<Rightarrow> 'seg Client \<Rightarrow> 'seg Client" where
  "run ops c = foldl (\<lambda>c op. step op c) c ops"

text \<open>
  The calls of \<^verbatim>\<open>connect()\<close> among the operations, and the number of reconnect
  attempts that a client has made so far.
\<close>

definition is_connect :: "'seg operation \<Rightarrow> bool" where
  "is_connect op = (case op of Op_connect _ \<Rightarrow> True | _ \<Rightarrow> False)"

definition reconnect_attempts :: "'seg Client \<Rightarrow> nat" where
  "reconnect_attempts c = count_list (transport_log c) Reconnect_attempt"

text \<open>
  What \<open>j\<close> reconnect attempts add to the transport log: the first attempt, then a wait
  of \<open>d\<close> seconds before each further one.
\<close>

definition reconnect_trace :: "pyfloat \<Rightarrow> nat \<Rightarrow> transport_action list" where
  "reconnect_trace d j =
     (if j = 0 then [] else Reconnect_attempt # concat (replicate (j - 1) [Wait d, Reconnect_attempt]))"

text \<open>
  Modelled from the spec: the client of the reconnection scenario of section 8, connected
  and configured with \<^verbatim>\<open>max_reconnect_attempts=2\<close>, and a client that was never
  connected.
\<close>

definition scenario_client :: "nat Client" where
  "scenario_client =
     \<lparr>config =
        \<lparr>token_endpoint = Some ''/api/wstoken'', headers = Some [], auto_connect = False,
         max_reconnect_attempts = 2, reconnect_delay = Finite 1,
         token_refresh_buffer = Finite 60,
         ws_endpoint = Some ''ws://192.168.1.46:8000/v1/stream/conversation'',
         use_token_auth = True, extra_attrs = []\<rparr>,
      connection_state = Connected, recording_state = Idle, audio_queue = [],
      processor_calls = [], connection_events = [], transport_log = []\<rparr>"

definition fresh_client :: "nat Client" where
  "fresh_client = scenario_client\<lparr>connection_state := Disconnected\<rparr>"

section \<open>Facts about the builtins\<close>

text \<open>The definitions that evaluate \<^verbatim>\<open>int\<close> and \<^verbatim>\<open>float\<close> on a given string.\<close>

lemmas py_int_eval =
  py_int_def int_digits_def int_max_str_digits_def strip_def isspace_def digitpart_def
  isdigit_def nat_of_digits_def digit_value_def

lemmas py_float_eval =
  py_float_def absfloatvalue_def lower_def lower_char_def floatnumber_def float_number_def
  float_exponent_def strip_def isspace_def digitpart_def isdigit_def nat_of_digits_def
  digit_value_def decimal_double_def nearest_double_def round_half_even_def bit_length.simps

lemma py_int_default: "py_int ''3'' = Some 3"
  by (simp add: py_int_eval)

lemma py_float_default_delay: "py_float ''1.0'' = Some (Finite 1)"
  by (simp add: py_float_eval)

lemma py_float_default_buffer: "py_float ''60.0'' = Some (Finite 60)"
  by (simp add: py_float_eval)

lemma lower_true: "lower ''true'' = ''true''"
  by code_simp

lemma set_strip: "set (strip s) \<subseteq> set s"
proof -
  have "set (strip s) = set (dropWhile isspace (rev (dropWhile isspace s)))"
    by (simp add: strip_def)
  also have "\<dots> \<subseteq> set (rev (dropWhile isspace s))"
    by (blast dest: set_dropWhileD)
  also have "\<dots> \<subseteq> set s"
    by (auto dest: set_dropWhileD)
  finally show ?thesis .
qed

text \<open>A string without a minus sign never parses to a negative integer.\<close>

lemma py_int_nonneg:
  assumes "py_int v = Some n" and "CHR ''-'' \<notin> set v"
  shows "0 \<le> n"
proof (cases "strip v")
  case Nil
  with assms(1) show ?thesis by (simp add: py_int_def)
next
  case (Cons c cs)
  then have "c \<in> set v" using set_strip [of v] by auto
  with assms(2) have "c \<noteq> CHR ''-''" by auto
  with assms(1) Cons show ?thesis
    by (auto simp: py_int_def int_digits_def split: if_splits option.splits)
qed

section \<open>Properties of \<^verbatim>\<open>get_default_config\<close>\<close>

text \<open>
  C9. \<^verbatim>\<open>get_default_config()\<close> returns a configuration in every environment in which
  \<^verbatim>\<open>VOCALS_MAX_RECONNECT_ATTEMPTS\<close> parses as an int and \<^verbatim>\<open>VOCALS_RECONNECT_DELAY\<close> and
  \<^verbatim>\<open>VOCALS_TOKEN_REFRESH_BUFFER\<close> parse as floats; when one of the three is set to a
  string that does not parse, the call raises \<^verbatim>\<open>ValueError\<close>.
\<close>

theorem get_default_config_returns:
  "(env_parses py_int env ''VOCALS_MAX_RECONNECT_ATTEMPTS'' \<and>
    env_parses py_float env ''VOCALS_RECONNECT_DELAY'' \<and>
    env_parses py_float env ''VOCALS_TOKEN_REFRESH_BUFFER''
      \<longrightarrow> (\<exists>cfg. get_default_config env = Inr cfg)) \<and>
   (\<not> (env_parses py_int env ''VOCALS_MAX_RECONNECT_ATTEMPTS'' \<and>
        env_parses py_float env ''VOCALS_RECONNECT_DELAY'' \<and>
        env_parses py_float env ''VOCALS_TOKEN_REFRESH_BUFFER'')
      \<longrightarrow> get_default_config env = Inl ValueError)"
  by (auto simp: get_default_config_def env_parses_def environ_get_def
        py_int_default py_float_default_delay py_float_default_buffer
      split: option.splits)

theorem get_default_config_returns_witness:
  "(\<exists>cfg. get_default_config (Map.empty(''VOCALS_MAX_RECONNECT_ATTEMPTS'' \<mapsto> '' 1_0 '',
       ''VOCALS_RECONNECT_DELAY'' \<mapsto> ''2.5e-1'')) = Inr cfg) \<and>
   get_default_config (Map.empty(''VOCALS_MAX_RECONNECT_ATTEMPTS'' \<mapsto> ''three'')) = Inl ValueError \<and>
   get_default_config (Map.empty(''VOCALS_RECONNECT_DELAY'' \<mapsto> ''1,5'')) = Inl ValueError \<and>
   get_default_config (Map.empty(''VOCALS_TOKEN_REFRESH_BUFFER'' \<mapsto> '''')) = Inl ValueError"
proof -
  have a: "py_int '' 1_0 '' = Some 10" by (simp add: py_int_eval)
  have b: "py_float ''2.5e-1'' = Some (Finite (1 / 4))" by (simp add: py_float_eval)
  have c: "py_int ''three'' = None" by (simp add: py_int_eval)
  have d: "py_float ''1,5'' = None" by (simp add: py_float_eval)
  have e: "py_float '''' = None" by (simp add: py_float_eval)
  show ?thesis
    using get_default_config_returns [of "Map.empty(''VOCALS_MAX_RECONNECT_ATTEMPTS'' \<mapsto> '' 1_0 '',
       ''VOCALS_RECONNECT_DELAY'' \<mapsto> ''2.5e-1'')"]
      get_default_config_returns [of "Map.empty(''VOCALS_MAX_RECONNECT_ATTEMPTS'' \<mapsto> ''three'')"]
      get_default_config_returns [of "Map.empty(''VOCALS_RECONNECT_DELAY'' \<mapsto> ''1,5'')"]
      get_default_config_returns [of "Map.empty(''VOCALS_TOKEN_REFRESH_BUFFER'' \<mapsto> '''')"]
    by (simp add: env_parses_def a b c d e)
qed

section \<open>Facts about the constructor\<close>

lemma post_init_fields:
  "auto_connect (post_init env self) = auto_connect self"
  "max_reconnect_attempts (post_init env self) = max_reconnect_attempts self"
  "reconnect_delay (post_init env self) = reconnect_delay self"
  "token_refresh_buffer (post_init env self) = token_refresh_buffer self"
  "use_token_auth (post_init env self) = use_token_auth self"
  "extra_attrs (post_init env self) = extra_attrs self"
  by (simp_all add: post_init_def Let_def)

lemma post_init_token_endpoint:
  "token_endpoint (post_init env self) =
     (case token_endpoint self of None \<Rightarrow> Some ''/api/wstoken'' | Some t \<Rightarrow> Some t)"
  by (simp add: post_init_def Let_def split: option.splits)

lemma post_init_ws_endpoint:
  "ws_endpoint (post_init env self) =
     (case ws_endpoint self of
        None \<Rightarrow> Some (case env ''VOCALS_WS_ENDPOINT'' of
                        None \<Rightarrow> ''ws://192.168.1.46:8000/v1/stream/conversation''
                      | Some v \<Rightarrow>
                          if v = [] then ''ws://192.168.1.46:8000/v1/stream/conversation''
                          else v)
      | Some w \<Rightarrow> Some w)"
  by (simp add: post_init_def Let_def split: option.splits)

lemma post_init_headers:
  "headers (post_init env self) = (case headers self of None \<Rightarrow> Some [] | Some h \<Rightarrow> Some h)"
  by (simp add: post_init_def Let_def split: option.splits)

lemma get_default_config_InrD:
  assumes "get_default_config env = Inr cfg"
  obtains mra rd trb where
    "py_int (environ_get env ''VOCALS_MAX_RECONNECT_ATTEMPTS'' ''3'') = Some mra"
    "py_float (environ_get env ''VOCALS_RECONNECT_DELAY'' ''1.0'') = Some rd"
    "py_float (environ_get env ''VOCALS_TOKEN_REFRESH_BUFFER'' ''60.0'') = Some trb"
    "cfg = VocalsConfig_init env
       (Some (environ_get env ''VOCALS_TOKEN_ENDPOINT'' ''/api/wstoken'')) None
       (lower (environ_get env ''VOCALS_AUTO_CONNECT'' ''true'') = ''true'') mra rd trb
       (Some (environ_get env ''VOCALS_WS_ENDPOINT''
                ''ws://192.168.1.46:8000/v1/stream/conversation''))
       (lower (environ_get env ''VOCALS_USE_TOKEN_AUTH'' ''true'') = ''true'')"
  using assms unfolding get_default_config_def Let_def
  by (auto split: option.splits)

lemma VocalsConfig_init_fields:
  "auto_connect (VocalsConfig_init env te hs ac mra rd trb ws uta) = ac"
  "max_reconnect_attempts (VocalsConfig_init env te hs ac mra rd trb ws uta) = mra"
  "reconnect_delay (VocalsConfig_init env te hs ac mra rd trb ws uta) = rd"
  "token_refresh_buffer (VocalsConfig_init env te hs ac mra rd trb ws uta) = trb"
  "use_token_auth (VocalsConfig_init env te hs ac mra rd trb ws uta) = uta"
  "extra_attrs (VocalsConfig_init env te hs ac mra rd trb ws uta) = []"
  "token_endpoint (VocalsConfig_init env (Some t) hs ac mra rd trb ws uta) = Some t"
  "ws_endpoint (VocalsConfig_init env te hs ac mra rd trb (Some w) uta) = Some w"
  "token_endpoint (VocalsConfig_init env None hs ac mra rd trb ws uta) = Some ''/api/wstoken''"
  "headers (VocalsConfig_init env te None ac mra rd trb ws uta) = Some []"
  by (simp_all add: VocalsConfig_init_def post_init_fields post_init_token_endpoint
        post_init_ws_endpoint post_init_headers)

text \<open>
  C10. The two boolean variables are read without regard to case and default to true:
  in the configuration that \<^verbatim>\<open>get_default_config()\<close> returns, \<^verbatim>\<open>auto_connect\<close> is true
  exactly when \<^verbatim>\<open>VOCALS_AUTO_CONNECT\<close> is unset or its lowercased value is \<^verbatim>\<open>"true"\<close>,
  and \<^verbatim>\<open>use_token_auth\<close> is true exactly when \<^verbatim>\<open>VOCALS_USE_TOKEN_AUTH\<close> is unset or
  its lowercased value is \<^verbatim>\<open>"true"\<close>. Any other value, such as \<^verbatim>\<open>"True "\<close> with a
  trailing space, gives false.
\<close>

theorem get_default_config_booleans:
  assumes "get_default_config env = Inr cfg"
  shows "(auto_connect cfg \<longleftrightarrow>
            (case env ''VOCALS_AUTO_CONNECT'' of None \<Rightarrow> True | Some v \<Rightarrow> lower v = ''true'')) \<and>
         (use_token_auth cfg \<longleftrightarrow>
            (case env ''VOCALS_USE_TOKEN_AUTH'' of None \<Rightarrow> True | Some v \<Rightarrow> lower v = ''true''))"
  using assms
  by (elim get_default_config_InrD)
     (simp add: VocalsConfig_init_fields environ_get_def lower_true split: option.splits)

theorem get_default_config_booleans_witness:
  "\<exists>cfg. get_default_config (Map.empty(''VOCALS_AUTO_CONNECT'' \<mapsto> ''TRUE'',
              ''VOCALS_USE_TOKEN_AUTH'' \<mapsto> ''True '')) = Inr cfg \<and>
         auto_connect cfg \<and> \<not> use_token_auth cfg"
proof -
  let ?env = "Map.empty(''VOCALS_AUTO_CONNECT'' \<mapsto> ''TRUE'', ''VOCALS_USE_TOKEN_AUTH'' \<mapsto> ''True '')"
  have a: "lower ''TRUE'' = ''true''" by code_simp
  have b: "lower ''True '' \<noteq> ''true''" by code_simp
  obtain cfg where h: "get_default_config ?env = Inr cfg"
    by (simp add: get_default_config_def environ_get_def py_int_default
          py_float_default_delay py_float_default_buffer)
  from get_default_config_booleans [OF h] h show ?thesis
    by (simp add: a b)
qed

text \<open>
  C2, as the claim states it: the configuration returned by \<^verbatim>\<open>get_default_config()\<close>
  has \<^verbatim>\<open>max_reconnect_attempts\<close> at least 0 in every environment. With
  \<^verbatim>\<open>VOCALS_MAX_RECONNECT_ATTEMPTS=-1\<close> the call returns a configuration whose
  \<^verbatim>\<open>max_reconnect_attempts\<close> is \<open>-1\<close>: the value of \<^verbatim>\<open>int\<close> is stored unchecked.
\<close>

theorem get_default_config_negative_attempts:
  "get_default_config (Map.empty(''VOCALS_MAX_RECONNECT_ATTEMPTS'' \<mapsto> ''-1'')) =
     Inr \<lparr>token_endpoint = Some ''/api/wstoken'', headers = Some [], auto_connect = True,
          max_reconnect_attempts = - 1, reconnect_delay = Finite 1,
          token_refresh_buffer = Finite 60,
          ws_endpoint = Some ''ws://192.168.1.46:8000/v1/stream/conversation'',
          use_token_auth = True, extra_attrs = []\<rparr>"
proof -
  have a: "py_int ''-1'' = Some (- 1)" by (simp add: py_int_eval)
  show ?thesis
    by (simp add: get_default_config_def environ_get_def a py_float_default_delay
          py_float_default_buffer lower_true VocalsConfig_init_def post_init_def)
qed

text \<open>
  C2, amended. Whenever \<^verbatim>\<open>get_default_config()\<close> returns, \<^verbatim>\<open>max_reconnect_attempts\<close>
  is the integer that \<^verbatim>\<open>int\<close> reads from \<^verbatim>\<open>VOCALS_MAX_RECONNECT_ATTEMPTS\<close> (from
  \<^verbatim>\<open>"3"\<close> when the variable is unset), and it is at least 0 whenever that string holds
  no minus sign.
\<close>

theorem get_default_config_max_reconnect_attempts:
  assumes "get_default_config env = Inr cfg"
  shows "py_int (environ_get env ''VOCALS_MAX_RECONNECT_ATTEMPTS'' ''3'') =
           Some (max_reconnect_attempts cfg) \<and>
         (CHR ''-'' \<notin> set (environ_get env ''VOCALS_MAX_RECONNECT_ATTEMPTS'' ''3'')
            \<longrightarrow> 0 \<le> max_reconnect_attempts cfg)"
proof -
  from assms have p: "py_int (environ_get env ''VOCALS_MAX_RECONNECT_ATTEMPTS'' ''3'') =
      Some (max_reconnect_attempts cfg)"
    by (elim get_default_config_InrD) (simp add: VocalsConfig_init_fields)
  with py_int_nonneg show ?thesis by blast
qed

theorem get_default_config_max_reconnect_attempts_witness:
  "\<exists>cfg. get_default_config (Map.empty(''VOCALS_MAX_RECONNECT_ATTEMPTS'' \<mapsto> '' 1_0 '')) = Inr cfg \<and>
         py_int '' 1_0 '' = Some (max_reconnect_attempts cfg) \<and>
         0 \<le> max_reconnect_attempts cfg"
proof -
  let ?env = "Map.empty(''VOCALS_MAX_RECONNECT_ATTEMPTS'' \<mapsto> '' 1_0 '')"
  have a: "py_int '' 1_0 '' = Some 10" by (simp add: py_int_eval)
  obtain cfg where h: "get_default_config ?env = Inr cfg"
    by (simp add: get_default_config_def environ_get_def a
          py_float_default_delay py_float_default_buffer)
  from get_default_config_max_reconnect_attempts [OF h] h show ?thesis
    by (simp add: environ_get_def)
qed

text \<open>
  C8, as the claim states it: \<^verbatim>\<open>VocalsConfig()\<close> and \<^verbatim>\<open>get_default_config()\<close> agree on
  seven fields in every environment, also on \<^verbatim>\<open>ws_endpoint\<close> when
  \<^verbatim>\<open>VOCALS_WS_ENDPOINT\<close> is the empty string. They differ on \<^verbatim>\<open>ws_endpoint\<close> in just
  that environment, and on \<^verbatim>\<open>max_reconnect_attempts\<close> when
  \<^verbatim>\<open>VOCALS_MAX_RECONNECT_ATTEMPTS=5\<close>: the bare constructor reads no variable but
  \<^verbatim>\<open>VOCALS_WS_ENDPOINT\<close>.
\<close>

theorem construction_paths_differ:
  "map_sum id ws_endpoint (get_default_config (Map.empty(''VOCALS_WS_ENDPOINT'' \<mapsto> ''''))) =
     Inr (Some '''') \<and>
   ws_endpoint (VocalsConfig_default (Map.empty(''VOCALS_WS_ENDPOINT'' \<mapsto> ''''))) =
     Some ''ws://192.168.1.46:8000/v1/stream/conversation'' \<and>
   map_sum id max_reconnect_attempts
     (get_default_config (Map.empty(''VOCALS_MAX_RECONNECT_ATTEMPTS'' \<mapsto> ''5''))) = Inr 5 \<and>
   max_reconnect_attempts
     (VocalsConfig_default (Map.empty(''VOCALS_MAX_RECONNECT_ATTEMPTS'' \<mapsto> ''5''))) = 3"
proof -
  have a: "py_int ''5'' = Some 5" by (simp add: py_int_eval)
  show ?thesis
    by (simp add: get_default_config_def environ_get_def a py_int_default
          py_float_default_delay py_float_default_buffer VocalsConfig_default_def
          VocalsConfig_init_fields)
       (simp add: VocalsConfig_init_def post_init_ws_endpoint)
qed

text \<open>
  C8, amended. Whenever \<^verbatim>\<open>get_default_config()\<close> returns, its result and
  \<^verbatim>\<open>VocalsConfig()\<close> agree on \<^verbatim>\<open>ws_endpoint\<close> if \<^verbatim>\<open>VOCALS_WS_ENDPOINT\<close> is unset or not
  empty, and they agree on each of the six other fields exactly when its variable is
  unset or evaluates to the default that the dataclass declares.
\<close>

theorem construction_paths_agree:
  assumes "get_default_config env = Inr cfg"
  shows "(env ''VOCALS_WS_ENDPOINT'' \<noteq> Some [] \<longrightarrow>
            ws_endpoint cfg = ws_endpoint (VocalsConfig_default env)) \<and>
         (token_endpoint cfg = token_endpoint (VocalsConfig_default env) \<longleftrightarrow>
            environ_get env ''VOCALS_TOKEN_ENDPOINT'' ''/api/wstoken'' = ''/api/wstoken'') \<and>
         (auto_connect cfg = auto_connect (VocalsConfig_default env) \<longleftrightarrow>
            lower (environ_get env ''VOCALS_AUTO_CONNECT'' ''true'') = ''true'') \<and>
         (max_reconnect_attempts cfg = max_reconnect_attempts (VocalsConfig_default env) \<longleftrightarrow>
            py_int (environ_get env ''VOCALS_MAX_RECONNECT_ATTEMPTS'' ''3'') = Some 3) \<and>
         (reconnect_delay cfg = reconnect_delay (VocalsConfig_default env) \<longleftrightarrow>
            py_float (environ_get env ''VOCALS_RECONNECT_DELAY'' ''1.0'') = Some (Finite 1)) \<and>
         (token_refresh_buffer cfg = token_refresh_buffer (VocalsConfig_default env) \<longleftrightarrow>
            py_float (environ_get env ''VOCALS_TOKEN_REFRESH_BUFFER'' ''60.0'') =
              Some (Finite 60)) \<and>
         (use_token_auth cfg = use_token_auth (VocalsConfig_default env) \<longleftrightarrow>
            lower (environ_get env ''VOCALS_USE_TOKEN_AUTH'' ''true'') = ''true'')"
  using assms
proof (elim get_default_config_InrD)
  fix mra rd trb
  assume p: "py_int (environ_get env ''VOCALS_MAX_RECONNECT_ATTEMPTS'' ''3'') = Some mra"
    "py_float (environ_get env ''VOCALS_RECONNECT_DELAY'' ''1.0'') = Some rd"
    "py_float (environ_get env ''VOCALS_TOKEN_REFRESH_BUFFER'' ''60.0'') = Some trb"
  assume c: "cfg = VocalsConfig_init env
       (Some (environ_get env ''VOCALS_TOKEN_ENDPOINT'' ''/api/wstoken'')) None
       (lower (environ_get env ''VOCALS_AUTO_CONNECT'' ''true'') = ''true'') mra rd trb
       (Some (environ_get env ''VOCALS_WS_ENDPOINT''
                ''ws://192.168.1.46:8000/v1/stream/conversation''))
       (lower (environ_get env ''VOCALS_USE_TOKEN_AUTH'' ''true'') = ''true'')"
  have ws: "env ''VOCALS_WS_ENDPOINT'' \<noteq> Some [] \<longrightarrow>
      ws_endpoint cfg = ws_endpoint (VocalsConfig_default env)"
    unfolding c VocalsConfig_default_def
    by (simp add: VocalsConfig_init_fields)
       (simp add: VocalsConfig_init_def post_init_ws_endpoint environ_get_def
          split: option.splits)
  have rest: "token_endpoint cfg = Some (environ_get env ''VOCALS_TOKEN_ENDPOINT'' ''/api/wstoken'')"
    "auto_connect cfg = (lower (environ_get env ''VOCALS_AUTO_CONNECT'' ''true'') = ''true'')"
    "max_reconnect_attempts cfg = mra" "reconnect_delay cfg = rd"
    "token_refresh_buffer cfg = trb"
    "use_token_auth cfg = (lower (environ_get env ''VOCALS_USE_TOKEN_AUTH'' ''true'') = ''true'')"
    unfolding c by (simp_all add: VocalsConfig_init_fields)
  have dflt: "token_endpoint (VocalsConfig_default env) = Some ''/api/wstoken''"
    "auto_connect (VocalsConfig_default env)"
    "max_reconnect_attempts (VocalsConfig_default env) = 3"
    "reconnect_delay (VocalsConfig_default env) = Finite 1"
    "token_refresh_buffer (VocalsConfig_default env) = Finite 60"
    "use_token_auth (VocalsConfig_default env)"
    by (simp_all add: VocalsConfig_default_def VocalsConfig_init_fields)
  from ws show ?thesis
    by (simp add: rest dflt p)
qed

theorem construction_paths_agree_witness:
  "\<exists>cfg. get_default_config (Map.empty(''VOCALS_WS_ENDPOINT'' \<mapsto> ''ws://localhost:9/v1'',
              ''VOCALS_AUTO_CONNECT'' \<mapsto> ''TRUE'')) = Inr cfg \<and>
     ws_endpoint cfg = ws_endpoint (VocalsConfig_default (Map.empty(''VOCALS_WS_ENDPOINT'' \<mapsto> ''ws://localhost:9/v1'',
              ''VOCALS_AUTO_CONNECT'' \<mapsto> ''TRUE''))) \<and>
     token_endpoint cfg = token_endpoint (VocalsConfig_default (Map.empty(''VOCALS_WS_ENDPOINT'' \<mapsto> ''ws://localhost:9/v1'',
              ''VOCALS_AUTO_CONNECT'' \<mapsto> ''TRUE''))) \<and>
     auto_connect cfg = auto_connect (VocalsConfig_default (Map.empty(''VOCALS_WS_ENDPOINT'' \<mapsto> ''ws://localhost:9/v1'',
              ''VOCALS_AUTO_CONNECT'' \<mapsto> ''TRUE''))) \<and>
     max_reconnect_attempts cfg = max_reconnect_attempts (VocalsConfig_default (Map.empty(''VOCALS_WS_ENDPOINT'' \<mapsto> ''ws://localhost:9/v1'',
              ''VOCALS_AUTO_CONNECT'' \<mapsto> ''TRUE''))) \<and>
     reconnect_delay cfg = reconnect_delay (VocalsConfig_default (Map.empty(''VOCALS_WS_ENDPOINT'' \<mapsto> ''ws://localhost:9/v1'',
              ''VOCALS_AUTO_CONNECT'' \<mapsto> ''TRUE''))) \<and>
     token_refresh_buffer cfg = token_refresh_buffer (VocalsConfig_default (Map.empty(''VOCALS_WS_ENDPOINT'' \<mapsto> ''ws://localhost:9/v1'',
              ''VOCALS_AUTO_CONNECT'' \<mapsto> ''TRUE''))) \<and>
     use_token_auth cfg = use_token_auth (VocalsConfig_default (Map.empty(''VOCALS_WS_ENDPOINT'' \<mapsto> ''ws://localhost:9/v1'',
              ''VOCALS_AUTO_CONNECT'' \<mapsto> ''TRUE'')))"
proof -
  let ?env = "Map.empty(''VOCALS_WS_ENDPOINT'' \<mapsto> ''ws://localhost:9/v1'',
              ''VOCALS_AUTO_CONNECT'' \<mapsto> ''TRUE'')"
  have a: "lower ''TRUE'' = ''true''" by code_simp
  obtain cfg where h: "get_default_config ?env = Inr cfg"
    by (simp add: get_default_config_def environ_get_def py_int_default
          py_float_default_delay py_float_default_buffer)
  from construction_paths_agree [OF h] h show ?thesis
    by (simp add: environ_get_def a lower_true py_int_default
          py_float_default_delay py_float_default_buffer)
qed

section \<open>The configuration object after construction\<close>

text \<open>
  C1, as the claim states it: once constructed, the configuration object never changes.
  The test suite assigns \<^verbatim>\<open>config.debug_level\<close> on the object that
  \<^verbatim>\<open>get_default_config()\<close> returned; the object, which had no such attribute, then has
  it.
\<close>

theorem settings_object_changes_after_construction:
  "map_sum id extra_attrs (get_default_config Map.empty) = Inr [] \<and>
   map_sum id extra_attrs (test_configuration_options_config Map.empty) =
     Inr [(''debug_level'', PStr ''DEBUG'')]"
  by (simp add: test_configuration_options_config_def get_default_config_def environ_get_def
        py_int_default py_float_default_delay py_float_default_buffer VocalsConfig_init_fields)

text \<open>
  C1, amended. The object is an unfrozen dataclass and can change after construction:
  the assignment \<^verbatim>\<open>config.debug_level = "DEBUG"\<close> of the test suite succeeds on every
  configuration that \<^verbatim>\<open>get_default_config()\<close> returns and adds that attribute. It
  leaves the eight declared fields, which were resolved from the environment during
  construction, as they were constructed.
\<close>

theorem assignment_keeps_declared_fields:
  assumes "get_default_config env = Inr cfg"
  shows "\<exists>cfg'. test_configuration_options_config env = Inr cfg' \<and>
           extra_attrs cfg' = [(''debug_level'', PStr ''DEBUG'')] \<and>
           token_endpoint cfg' = token_endpoint cfg \<and> headers cfg' = headers cfg \<and>
           auto_connect cfg' = auto_connect cfg \<and>
           max_reconnect_attempts cfg' = max_reconnect_attempts cfg \<and>
           reconnect_delay cfg' = reconnect_delay cfg \<and>
           token_refresh_buffer cfg' = token_refresh_buffer cfg \<and>
           ws_endpoint cfg' = ws_endpoint cfg \<and> use_token_auth cfg' = use_token_auth cfg"
proof -
  from assms have "extra_attrs cfg = []"
    by (elim get_default_config_InrD) (simp add: VocalsConfig_init_fields)
  with assms show ?thesis
    by (simp add: test_configuration_options_config_def)
qed

theorem assignment_keeps_declared_fields_witness:
  "\<exists>cfg cfg'. get_default_config (Map.empty(''VOCALS_RECONNECT_DELAY'' \<mapsto> ''2.5'')) = Inr cfg \<and>
     test_configuration_options_config (Map.empty(''VOCALS_RECONNECT_DELAY'' \<mapsto> ''2.5'')) = Inr cfg' \<and>
     extra_attrs cfg' = [(''debug_level'', PStr ''DEBUG'')] \<and>
     reconnect_delay cfg' = reconnect_delay cfg \<and> reconnect_delay cfg = Finite (5 / 2)"
proof -
  let ?env = "Map.empty(''VOCALS_RECONNECT_DELAY'' \<mapsto> ''2.5'')"
  have a: "py_float ''2.5'' = Some (Finite (5 / 2))" by (simp add: py_float_eval)
  have h: "get_default_config ?env = Inr (VocalsConfig_init ?env (Some ''/api/wstoken'') None True 3
      (Finite (5 / 2)) (Finite 60) (Some ''ws://192.168.1.46:8000/v1/stream/conversation'') True)"
    by (simp add: get_default_config_def environ_get_def py_int_default a
          py_float_default_buffer lower_true)
  from assignment_keeps_declared_fields [OF h] h show ?thesis
    by (auto simp: VocalsConfig_init_fields)
qed

section \<open>The audio queue\<close>

lemma add_all_queue:
  "audio_queue (foldl (\<lambda>c seg. add_to_queue seg c) c segs) = audio_queue c @ segs"
  by (induction segs arbitrary: c) (simp_all add: add_to_queue_def)

lemma add_all_processor_calls:
  "processor_calls (foldl (\<lambda>c seg. add_to_queue seg c) c segs) = processor_calls c"
  by (induction segs arbitrary: c) (simp_all add: add_to_queue_def)

text \<open>
  C4. After any sequence of \<^verbatim>\<open>add_to_queue\<close> calls, a call of
  \<^verbatim>\<open>process_audio_queue(processor, consume_all=False)\<close> on an empty queue hands nothing
  over and returns 0; otherwise it removes the segment that arrived first, hands that
  one segment to the processor, keeps the remaining segments in their arrival order and
  returns 1.
\<close>

theorem process_audio_queue_one:
  "process_audio_queue False (foldl (\<lambda>c seg. add_to_queue seg c) c0 segs) =
     (case audio_queue c0 @ segs of
        [] \<Rightarrow> (0, foldl (\<lambda>c seg. add_to_queue seg c) c0 segs)
      | seg # rest \<Rightarrow>
          (1, (foldl (\<lambda>c seg. add_to_queue seg c) c0 segs)
                \<lparr>processor_calls := processor_calls c0 @ [seg], audio_queue := rest\<rparr>))"
  by (simp add: process_audio_queue_def add_all_queue add_all_processor_calls
        split: list.splits)

text \<open>
  C5. Whatever the queue held, \<^verbatim>\<open>clear_queue()\<close> leaves a queue of length zero and
  hands no segment to a processor: the processor's calls are as before, and processing
  the queue right afterwards finds nothing.
\<close>

theorem clear_queue_empties:
  "length (audio_queue (clear_queue c)) = 0 \<and>
   processor_calls (clear_queue c) = processor_calls c \<and>
   process_audio_queue consume_all (clear_queue c) = (0, clear_queue c)"
  by (simp add: clear_queue_def process_audio_queue_def)

section \<open>The connection state machine\<close>

text \<open>
  C6. \<^verbatim>\<open>disconnect()\<close> ends in the disconnected state from every state, and so does a
  second call right after it; the second call emits at most one connection-state event
  (one or none, as the implementation documents) and does not touch the transport
  again.
\<close>

theorem disconnect_idempotent:
  "connection_state (disconnect notify_noop c) = Disconnected \<and>
   connection_state (disconnect notify_noop (disconnect notify_noop c)) = Disconnected \<and>
   connection_events (disconnect notify_noop (disconnect notify_noop c)) =
     connection_events (disconnect notify_noop c) @ (if notify_noop then [Disconnected] else []) \<and>
   length (connection_events (disconnect notify_noop (disconnect notify_noop c))) \<le>
     length (connection_events (disconnect notify_noop c)) + 1 \<and>
   transport_log (disconnect notify_noop (disconnect notify_noop c)) =
     transport_log (disconnect notify_noop c)"
  by (simp add: disconnect_def set_connection_state_def)

text \<open>
  C3. In every connection state other than connected, \<^verbatim>\<open>start_recording()\<close> raises
  \<^verbatim>\<open>StateError\<close> to its caller and leaves the recording state, and the rest of the
  client, unchanged.
\<close>

theorem start_recording_requires_connection:
  assumes "connection_state c \<noteq> Connected"
  shows "fst (start_recording c) = Inl StateError \<and>
         recording_state (snd (start_recording c)) = recording_state c \<and>
         snd (start_recording c) = c"
  using assms by (simp add: start_recording_def)

theorem start_recording_requires_connection_witness:
  "fst (start_recording fresh_client) = Inl StateError \<and>
   recording_state (snd (start_recording fresh_client)) = Idle \<and>
   snd (start_recording fresh_client) = fresh_client"
  using start_recording_requires_connection [of fresh_client]
  by (simp add: fresh_client_def scenario_client_def)

subsection \<open>Reconnection\<close>

lemma count_retries:
  "count_list (concat (replicate j [Wait d, Reconnect_attempt])) Reconnect_attempt = j"
  by (induction j) simp_all

lemma count_reconnect_trace: "count_list (reconnect_trace d j) Reconnect_attempt = j"
  by (simp add: reconnect_trace_def count_retries)

text \<open>The loop after its first attempt: at most \<open>n\<close> further attempts, each after a wait.\<close>

lemma reconnect_later:
  assumes "0 < k"
  shows "\<exists>j\<le>n. transport_log (reconnect n d opens k c) =
             transport_log c @ concat (replicate j [Wait d, Reconnect_attempt]) \<and>
           (connection_state (reconnect n d opens k c) = Connected \<or>
            connection_state (reconnect n d opens k c) = Error) \<and>
           connection_events (reconnect n d opens k c) =
             connection_events c @ [connection_state (reconnect n d opens k c)]"
  using assms
proof (induction n arbitrary: k c)
  case 0
  then show ?case by (simp add: set_connection_state_def)
next
  case (Suc n)
  let ?c1 = "c\<lparr>transport_log := transport_log c @ [Wait d, Reconnect_attempt]\<rparr>"
  show ?case
  proof (cases "opens k")
    case True
    with Suc.prems have "reconnect (Suc n) d opens k c = set_connection_state Connected ?c1"
      by simp
    then show ?thesis
      by (intro exI [of _ 1]) (simp add: set_connection_state_def)
  next
    case False
    with Suc.prems have r: "reconnect (Suc n) d opens k c = reconnect n d opens (Suc k) ?c1"
      by simp
    from Suc.IH [of "Suc k" ?c1] obtain j where j: "j \<le> n"
      "transport_log (reconnect n d opens (Suc k) ?c1) =
         transport_log ?c1 @ concat (replicate j [Wait d, Reconnect_attempt])"
      "connection_state (reconnect n d opens (Suc k) ?c1) = Connected \<or>
       connection_state (reconnect n d opens (Suc k) ?c1) = Error"
      "connection_events (reconnect n d opens (Suc k) ?c1) =
         connection_events ?c1 @ [connection_state (reconnect n d opens (Suc k) ?c1)]"
      by auto
    show ?thesis
      unfolding r using j
      by (intro exI [of _ "Suc j"]) simp
  qed
qed

lemma reconnect_later_all_fail:
  assumes "0 < k" and "\<forall>i<n. \<not> opens (k + i)"
  shows "reconnect n d opens k c =
           c\<lparr>transport_log := transport_log c @ concat (replicate n [Wait d, Reconnect_attempt]),
              connection_state := Error,
              connection_events := connection_events c @ [Error]\<rparr>"
  using assms
proof (induction n arbitrary: k c)
  case 0
  then show ?case by (simp add: set_connection_state_def)
next
  case (Suc n)
  let ?c1 = "c\<lparr>transport_log := transport_log c @ [Wait d, Reconnect_attempt]\<rparr>"
  from Suc.prems(2) have "\<not> opens k" by (metis add.right_neutral zero_less_Suc)
  with Suc.prems(1) have r: "reconnect (Suc n) d opens k c = reconnect n d opens (Suc k) ?c1"
    by simp
  from Suc.prems(2) have "\<forall>i<n. \<not> opens (Suc k + i)"
    by (metis Suc_less_eq add_Suc_shift)
  with Suc.IH [of "Suc k" ?c1] show ?case
    unfolding r by simp
qed

text \<open>The whole loop, from its first attempt.\<close>

lemma reconnect_first:
  "\<exists>j\<le>n. transport_log (reconnect n d opens 0 c) = transport_log c @ reconnect_trace d j \<and>
          (connection_state (reconnect n d opens 0 c) = Connected \<or>
           connection_state (reconnect n d opens 0 c) = Error) \<and>
          connection_events (reconnect n d opens 0 c) =
            connection_events c @ [connection_state (reconnect n d opens 0 c)]"
proof (cases n)
  case 0
  then show ?thesis by (simp add: set_connection_state_def reconnect_trace_def)
next
  case (Suc n')
  let ?c1 = "c\<lparr>transport_log := transport_log c @ [Reconnect_attempt]\<rparr>"
  show ?thesis
  proof (cases "opens 0")
    case True
    with Suc show ?thesis
      by (intro exI [of _ 1]) (simp add: set_connection_state_def reconnect_trace_def)
  next
    case False
    with Suc have r: "reconnect n d opens 0 c = reconnect n' d opens (Suc 0) ?c1"
      by simp
    from reconnect_later [of "Suc 0" n' d opens ?c1] obtain j where j: "j \<le> n'"
      "transport_log (reconnect n' d opens (Suc 0) ?c1) =
         transport_log ?c1 @ concat (replicate j [Wait d, Reconnect_attempt])"
      "connection_state (reconnect n' d opens (Suc 0) ?c1) = Connected \<or>
       connection_state (reconnect n' d opens (Suc 0) ?c1) = Error"
      "connection_events (reconnect n' d opens (Suc 0) ?c1) =
         connection_events ?c1 @ [connection_state (reconnect n' d opens (Suc 0) ?c1)]"
      by auto
    show ?thesis
      unfolding r using j Suc
      by (intro exI [of _ "Suc j"]) (simp add: reconnect_trace_def)
  qed
qed

lemma reconnect_first_all_fail:
  assumes "\<forall>i<n. \<not> opens i"
  shows "reconnect n d opens 0 c =
           c\<lparr>transport_log := transport_log c @ reconnect_trace d n,
              connection_state := Error,
              connection_events := connection_events c @ [Error]\<rparr>"
proof (cases n)
  case 0
  then show ?thesis by (simp add: set_connection_state_def reconnect_trace_def)
next
  case (Suc n')
  let ?c1 = "c\<lparr>transport_log := transport_log c @ [Reconnect_attempt]\<rparr>"
  from assms Suc have "\<not> opens 0" by simp
  with Suc have r: "reconnect n d opens 0 c = reconnect n' d opens (Suc 0) ?c1"
    by simp
  from assms Suc have "\<forall>i<n'. \<not> opens (Suc 0 + i)" by simp
  from reconnect_later_all_fail [OF _ this, of d ?c1] show ?thesis
    unfolding r using Suc by (simp add: reconnect_trace_def)
qed

text \<open>
  Without a call of \<^verbatim>\<open>connect()\<close>, a client that is not connected stays so and makes
  no reconnect attempt.
\<close>

lemma step_not_connected:
  assumes "connection_state c \<noteq> Connected" and "\<not> is_connect op"
  shows "connection_state (step op c) \<noteq> Connected \<and>
         reconnect_attempts (step op c) = reconnect_attempts c"
  using assms
  by (cases op)
     (simp_all add: is_connect_def disconnect_def set_connection_state_def transport_lost_def
        start_recording_def add_to_queue_def process_audio_queue_def clear_queue_def
        reconnect_attempts_def split: list.splits)

lemma run_not_connected:
  assumes "connection_state c \<noteq> Connected" and "\<not> list_ex is_connect ops"
  shows "connection_state (run ops c) \<noteq> Connected \<and>
         reconnect_attempts (run ops c) = reconnect_attempts c"
  using assms unfolding run_def
proof (induction ops arbitrary: c)
  case Nil
  then show ?case by simp
next
  case (Cons op ops)
  from Cons.prems have a: "\<not> is_connect op" and b: "\<not> list_ex is_connect ops" by simp_all
  from step_not_connected [OF Cons.prems(1) a]
  have s: "connection_state (step op c) \<noteq> Connected"
    "reconnect_attempts (step op c) = reconnect_attempts c" by simp_all
  from Cons.IH [OF s(1) b] s(2) show ?case by simp
qed

text \<open>
  C7. When the transport is lost while the client is connected, the manager goes to
  reconnecting and makes at most \<^verbatim>\<open>max_reconnect_attempts\<close> reconnect attempts, with a
  wait of \<^verbatim>\<open>reconnect_delay\<close> seconds between two attempts. When every attempt fails
  it has made exactly that many, it is in the error state, and no later call or event
  makes another attempt unless \<^verbatim>\<open>connect()\<close> is called again.
\<close>

theorem reconnect_attempts_bounded:
  assumes "connection_state c = Connected"
  shows "(\<exists>j\<le>nat (max_reconnect_attempts (config c)).
            transport_log (transport_lost opens c) =
              transport_log c @ reconnect_trace (reconnect_delay (config c)) j) \<and>
         reconnect_attempts (transport_lost opens c) \<le>
           reconnect_attempts c + nat (max_reconnect_attempts (config c)) \<and>
         connection_events (transport_lost opens c) =
           connection_events c @ [Reconnecting, connection_state (transport_lost opens c)] \<and>
         ((\<forall>k<nat (max_reconnect_attempts (config c)). \<not> opens k) \<longrightarrow>
            connection_state (transport_lost opens c) = Error \<and>
            transport_log (transport_lost opens c) =
              transport_log c @
                reconnect_trace (reconnect_delay (config c)) (nat (max_reconnect_attempts (config c))) \<and>
            (\<forall>ops. \<not> list_ex is_connect ops \<longrightarrow>
               connection_state (run ops (transport_lost opens c)) \<noteq> Connected \<and>
               reconnect_attempts (run ops (transport_lost opens c)) =
                 reconnect_attempts c + nat (max_reconnect_attempts (config c))))"
proof -
  let ?m = "nat (max_reconnect_attempts (config c))"
  let ?d = "reconnect_delay (config c)"
  let ?c1 = "set_connection_state Reconnecting c"
  have t: "transport_lost opens c = reconnect ?m ?d opens 0 ?c1"
    using assms by (simp add: transport_lost_def)
  have c1: "transport_log ?c1 = transport_log c"
    "connection_events ?c1 = connection_events c @ [Reconnecting]"
    by (simp_all add: set_connection_state_def)
  from reconnect_first [of ?m ?d opens ?c1] obtain j where j: "j \<le> ?m"
    "transport_log (transport_lost opens c) = transport_log c @ reconnect_trace ?d j"
    "connection_events (transport_lost opens c) =
       connection_events c @ [Reconnecting, connection_state (transport_lost opens c)]"
    unfolding t c1 by auto
  from j(1,2) have bound: "reconnect_attempts (transport_lost opens c) \<le> reconnect_attempts c + ?m"
    by (simp add: reconnect_attempts_def count_reconnect_trace)
  have fail: "connection_state (transport_lost opens c) = Error \<and>
      transport_log (transport_lost opens c) = transport_log c @ reconnect_trace ?d ?m \<and>
      (\<forall>ops. \<not> list_ex is_connect ops \<longrightarrow>
         connection_state (run ops (transport_lost opens c)) \<noteq> Connected \<and>
         reconnect_attempts (run ops (transport_lost opens c)) = reconnect_attempts c + ?m)"
    if f: "\<forall>k<?m. \<not> opens k"
  proof -
    from reconnect_first_all_fail [OF f, of ?d ?c1]
    have e: "connection_state (transport_lost opens c) = Error"
      and l: "transport_log (transport_lost opens c) = transport_log c @ reconnect_trace ?d ?m"
      unfolding t by (simp_all add: c1)
    from l have n: "reconnect_attempts (transport_lost opens c) = reconnect_attempts c + ?m"
      by (simp add: reconnect_attempts_def count_reconnect_trace)
    from e have "connection_state (transport_lost opens c) \<noteq> Connected" by simp
    from run_not_connected [OF this] n e l show ?thesis by simp
  qed
  from j bound fail show ?thesis by blast
qed

theorem reconnect_attempts_bounded_witness:
  "connection_state (transport_lost (\<lambda>k. False) scenario_client) = Error \<and>
   transport_log (transport_lost (\<lambda>k. False) scenario_client) =
     [Reconnect_attempt, Wait (Finite 1), Reconnect_attempt] \<and>
   connection_events (transport_lost (\<lambda>k. False) scenario_client) = [Reconnecting, Error] \<and>
   reconnect_attempts
     (run [Op_transport_lost (\<lambda>k. True), Op_start_recording, Op_disconnect True]
        (transport_lost (\<lambda>k. False) scenario_client)) = 2"
proof -
  have h: "connection_state scenario_client = Connected"
    by (simp add: scenario_client_def)
  have m: "nat (max_reconnect_attempts (config scenario_client)) = 2"
    "reconnect_delay (config scenario_client) = Finite 1"
    "transport_log scenario_client = []" "connection_events scenario_client = []"
    "reconnect_attempts scenario_client = 0"
    by (simp_all add: scenario_client_def reconnect_attempts_def)
  have t: "reconnect_trace (Finite 1) 2 = [Reconnect_attempt, Wait (Finite 1), Reconnect_attempt]"
    by (simp add: reconnect_trace_def)
  have n: "\<not> list_ex is_connect
      [Op_transport_lost (\<lambda>k. True), Op_start_recording, Op_disconnect True :: nat operation]"
    by (simp add: is_connect_def)
  from reconnect_attempts_bounded [OF h, of "\<lambda>k. False"] n show ?thesis
    by (simp add: m t)
qed

end
